theory Spec2Isabelle
  imports Complex_Main "HOL-Library.Log_Nat"
begin

section \<open>Python values, exceptions and binary64 arithmetic\<close>

text \<open>
  The three integrations are Python. Integers are unbounded (\<open>int\<close>); every \<open>raise\<close> is a
  value of \<open>py_exception\<close> on the left of a sum. The shade module computes with Python
  floats, which are IEEE 754 binary64 numbers: a finite float is modelled by the rational
  number it denotes, and every arithmetic operation rounds its exact result to the nearest
  binary64 value, ties to even (\<open>round_double\<close>).
\<close>

datatype py_exception =
    ZeroDivisionError
  | OverflowError
  | KeyError
  | TimeoutError
  | CloudNotConnected
  | ConfigEntryAuthFailed
  | ConnectTimeout
  | ConfigEntryNotReady
  | AttributeError
  | OtherException string

datatype py_value = PyNone | PyBool bool | PyInt int | PyStr string

fun truthy :: "py_value \<Rightarrow> bool" where
  "truthy PyNone = False"
| "truthy (PyBool b) = b"
| "truthy (PyInt n) = (n \<noteq> 0)"
| "truthy (PyStr s) = (s \<noteq> [])"

definition bind :: "'e + 'a \<Rightarrow> ('a \<Rightarrow> 'e + 'b) \<Rightarrow> 'e + 'b" where
  "bind m f = (case m of Inl e \<Rightarrow> Inl e | Inr a \<Rightarrow> f a)"

text \<open>A float is finite (the rational it denotes) or an infinity (\<open>True\<close> for \<open>+inf\<close>).\<close>

datatype py_float = Finite rat | Infinity bool

text \<open>Rounding to the nearest integer, ties to the even one: Python's \<open>round(x)\<close>.\<close>

definition round_half_even :: "rat \<Rightarrow> int" where
  "round_half_even x =
     (let f = \<lfloor>x\<rfloor>; d = x - of_int f
      in if d < 1 / 2 then f
         else if 1 / 2 < d then f + 1
         else if even f then f else f + 1)"

text \<open>The exponent \<open>e\<close> with \<open>2^e \<le> |x| < 2^(e+1)\<close>, for \<open>x \<noteq> 0\<close>.\<close>

definition binade :: "rat \<Rightarrow> int" where
  "binade x =
     (if 1 \<le> \<bar>x\<bar> then bitlen \<lfloor>\<bar>x\<bar>\<rfloor> - 1 else - bitlen (\<lceil>1 / \<bar>x\<bar>\<rceil> - 1))"

text \<open>
  The spacing of binary64 numbers around \<open>x\<close>: 53 significant bits, and the fixed spacing
  \<open>2^-1074\<close> of the subnormal numbers below \<open>2^-1022\<close>.
\<close>

definition ulp :: "rat \<Rightarrow> rat" where
  "ulp x = 2 powi (max (binade x) (- 1022) - 52)"

definition round_double :: "rat \<Rightarrow> rat" where
  "round_double x = (if x = 0 then 0 else of_int (round_half_even (x / ulp x)) * ulp x)"

text \<open>A rounded result of magnitude \<open>2^1024\<close> or more overflows to an infinity.\<close>

definition to_py_float :: "rat \<Rightarrow> py_float" where
  "to_py_float x =
     (let r = round_double x
      in if 2 powi 1024 \<le> \<bar>r\<bar> then Infinity (0 < r) else Finite r)"

text \<open>\<open>a / b\<close> on two ints: the correctly rounded quotient, or an exception.\<close>

definition int_truediv :: "int \<Rightarrow> int \<Rightarrow> py_exception + rat" where
  "int_truediv a b =
     (if b = 0 then Inl ZeroDivisionError
      else case to_py_float (of_int a / of_int b) of
             Infinity _ \<Rightarrow> Inl OverflowError
           | Finite q \<Rightarrow> Inr q)"

text \<open>The conversion of an int operand of a mixed float/int operation.\<close>

definition float_of_int :: "int \<Rightarrow> py_exception + rat" where
  "float_of_int n =
     (case to_py_float (of_int n) of
        Infinity _ \<Rightarrow> Inl OverflowError
      | Finite q \<Rightarrow> Inr q)"

definition float_mul :: "rat \<Rightarrow> rat \<Rightarrow> py_float" where
  "float_mul x y = to_py_float (x * y)"

text \<open>\<open>round(x)\<close> and \<open>int(x)\<close> on a float; both raise on an infinity.\<close>

definition py_round :: "py_float \<Rightarrow> py_exception + int" where
  "py_round x =
     (case x of Infinity _ \<Rightarrow> Inl OverflowError | Finite r \<Rightarrow> Inr (round_half_even r))"

definition truncate_rat :: "rat \<Rightarrow> int" where
  "truncate_rat r = (if 0 \<le> r then \<lfloor>r\<rfloor> else \<lceil>r\<rceil>)"

definition py_int :: "py_float \<Rightarrow> py_exception + int" where
  "py_int x =
     (case x of Infinity _ \<Rightarrow> Inl OverflowError | Finite r \<Rightarrow> Inr (truncate_rat r))"

section \<open>Shades: position conversion (hunterdouglas\_powerview/cover.py)\<close>

text \<open>
  Modelled from the spec: \<open>MAX_POSITION\<close> and \<open>MIN_POSITION\<close> are constants of the vendor
  library, which is not part of the sources; the spec gives the vendor range as the
  integers in [0, 65535].
\<close>

definition MAX_POSITION :: int where
  "MAX_POSITION = 65535"

definition MIN_POSITION :: int where
  "MIN_POSITION = 0"

definition TRANSITION_COMPLETE_DURATION :: int where
  "TRANSITION_COMPLETE_DURATION = 40"

definition RESYNC_DELAY :: int where
  "RESYNC_DELAY = 60"

text \<open>\<open>CLOSED_POSITION = (0.75 / 100) * (MAX_POSITION - MIN_POSITION)\<close>, two float operations.\<close>

definition CLOSED_POSITION :: rat where
  "CLOSED_POSITION =
     round_double (round_double ((3 / 4) / 100) * of_int (MAX_POSITION - MIN_POSITION))"

text \<open>\<open>round((hd_position / max_val) * 100)\<close>\<close>

definition hd_position_to_hass :: "int \<Rightarrow> int \<Rightarrow> py_exception + int" where
  "hd_position_to_hass hd_position max_val =
     bind (int_truediv hd_position max_val) (\<lambda>q. py_round (float_mul q 100))"

text \<open>\<open>int(hass_position / 100 * max_val)\<close>\<close>

definition hass_position_to_hd :: "int \<Rightarrow> int \<Rightarrow> py_exception + int" where
  "hass_position_to_hd hass_position max_val =
     bind (int_truediv hass_position 100)
       (\<lambda>q. bind (float_of_int max_val) (\<lambda>m. py_int (float_mul q m)))"

section \<open>Shades: entities, delayed polls and movement (hunterdouglas\_powerview/cover.py)\<close>

text \<open>
  One datatype value per entity class of the module. \<open>PowerViewShadeBase\<close> and
  \<open>PowerViewShadeTDBU\<close> are never instantiated; their methods are inherited, and the
  functions below dispatch on the class the way the method resolution order does.
  A leading underscore of a Python name is dropped.
\<close>

datatype entity_class =
    PowerViewShade
  | PowerViewShadeTDBUBottom
  | PowerViewShadeTDBUTop
  | PowerViewShadeWithTilt
  | PowerViewShadeSilhouette

datatype pos_kind = POS_KIND_PRIMARY | POS_KIND_SECONDARY | POS_KIND_VANE

text \<open>
  Modelled from the spec: \<open>self.positions\<close> is provided by the entity base class and the
  shade data cache, which are not part of the sources; the spec names the primary, the
  secondary and the vane position of a shade.
\<close>

record shade_positions =
  primary :: int
  secondary :: int
  vane :: int

text \<open>The dictionary sent to the hub by \<open>shade.move\<close>; an absent key is \<open>None\<close>.\<close>

record move_request =
  ATTR_POSITION1 :: "int option"
  ATTR_POSKIND1 :: "pos_kind option"
  ATTR_POSITION2 :: "int option"
  ATTR_POSKIND2 :: "pos_kind option"

text \<open>\<open>PowerviewShadeMove(request, new_positions)\<close>\<close>

record shade_move =
  request :: move_request
  new_positions :: "(pos_kind \<times> int) list"

text \<open>
  Modelled from the spec: the host's delayed-callback primitive \<open>async_call_later\<close> is not
  part of the sources. It arms a one-shot timer that runs a callback after a delay, and
  returns a handle; calling the handle cancels the timer (and does nothing once the timer
  has run). The two callbacks armed by the module are the transition-completion poll
  \<open>_async_complete_schedule_update\<close> and the resync poll \<open>_async_force_resync\<close>.
\<close>

datatype timer_action = CompleteScheduleUpdate | ForceResync

record timer =
  timer_id :: nat
  timer_delay :: int
  timer_action :: timer_action

record hass =
  pending :: "timer list"
  next_timer_id :: nat

definition async_call_later :: "hass \<Rightarrow> int \<Rightarrow> timer_action \<Rightarrow> nat \<times> hass" where
  "async_call_later h delay action =
     (next_timer_id h,
      h\<lparr>pending := pending h @
           [\<lparr>timer_id = next_timer_id h, timer_delay = delay, timer_action = action\<rparr>],
        next_timer_id := Suc (next_timer_id h)\<rparr>)"

definition cancel_timer :: "nat \<Rightarrow> hass \<Rightarrow> hass" where
  "cancel_timer handle h = h\<lparr>pending := filter (\<lambda>t. timer_id t \<noteq> handle) (pending h)\<rparr>"

text \<open>
  The fields of a shade entity that the module reads and writes. \<open>shade_open_position\<close>
  and \<open>shade_close_position\<close> are \<open>self._shade.open_position\<close> and
  \<open>self._shade.close_position\<close>, data of the vendor library. \<open>moves_sent\<close> records
  the requests passed to \<open>self._shade.move\<close>, oldest first.
\<close>

record shade_entity =
  entity_class :: entity_class
  positions :: shade_positions
  shade_open_position :: move_request
  shade_close_position :: move_request
  scheduled_transition_update :: "nat option"
  forced_resync :: "nat option"
  attr_is_opening :: "bool option"
  attr_is_closing :: "bool option"
  moves_sent :: "move_request list"

type_synonym shade_state = "hass \<times> shade_entity"

definition max_tilt :: "entity_class \<Rightarrow> int" where
  "max_tilt c = (if c = PowerViewShadeSilhouette then 32767 else MAX_POSITION)"

definition is_tilt_class :: "entity_class \<Rightarrow> bool" where
  "is_tilt_class c \<longleftrightarrow> c = PowerViewShadeWithTilt \<or> c = PowerViewShadeSilhouette"

definition is_closed :: "shade_entity \<Rightarrow> bool" where
  "is_closed e =
     (case entity_class e of
        PowerViewShadeTDBUTop \<Rightarrow> of_int (secondary (positions e)) \<le> CLOSED_POSITION
      | _ \<Rightarrow> of_int (primary (positions e)) \<le> CLOSED_POSITION)"

definition current_cover_position :: "shade_entity \<Rightarrow> py_exception + int" where
  "current_cover_position e =
     (case entity_class e of
        PowerViewShadeTDBUTop \<Rightarrow> hd_position_to_hass (secondary (positions e)) MAX_POSITION
      | _ \<Rightarrow> hd_position_to_hass (primary (positions e)) MAX_POSITION)"

definition current_cover_tilt_position :: "shade_entity \<Rightarrow> py_exception + int" where
  "current_cover_tilt_position e =
     hd_position_to_hass (vane (positions e)) (max_tilt (entity_class e))"

definition transition_steps :: "shade_entity \<Rightarrow> py_exception + int" where
  "transition_steps e =
     (case entity_class e of
        PowerViewShade \<Rightarrow> hd_position_to_hass (primary (positions e)) MAX_POSITION
      | PowerViewShadeTDBUBottom \<Rightarrow>
          bind (hd_position_to_hass (primary (positions e)) MAX_POSITION) (\<lambda>a.
          bind (hd_position_to_hass (secondary (positions e)) MAX_POSITION) (\<lambda>b. Inr (a + b)))
      | PowerViewShadeTDBUTop \<Rightarrow>
          bind (hd_position_to_hass (primary (positions e)) MAX_POSITION) (\<lambda>a.
          bind (hd_position_to_hass (secondary (positions e)) MAX_POSITION) (\<lambda>b. Inr (a + b)))
      | _ \<Rightarrow>
          bind (hd_position_to_hass (primary (positions e)) MAX_POSITION) (\<lambda>a.
          bind (hd_position_to_hass (vane (positions e)) (max_tilt (entity_class e)))
            (\<lambda>b. Inr (a + b))))"

definition open_position :: "shade_entity \<Rightarrow> shade_move" where
  "open_position e =
     \<lparr>request = shade_open_position e,
      new_positions = (if is_tilt_class (entity_class e) then [(POS_KIND_VANE, MIN_POSITION)]
                       else [])\<rparr>"

definition close_position :: "shade_entity \<Rightarrow> shade_move" where
  "close_position e =
     \<lparr>request = shade_close_position e,
      new_positions = (if is_tilt_class (entity_class e) then [(POS_KIND_VANE, MIN_POSITION)]
                       else [])\<rparr>"

definition open_tilt_position :: "shade_entity \<Rightarrow> shade_move" where
  "open_tilt_position e =
     \<lparr>request = \<lparr>ATTR_POSITION1 = Some (max_tilt (entity_class e)),
                  ATTR_POSKIND1 = Some POS_KIND_VANE,
                  ATTR_POSITION2 = None, ATTR_POSKIND2 = None\<rparr>,
      new_positions = [(POS_KIND_PRIMARY, MIN_POSITION)]\<rparr>"

definition close_tilt_position :: "shade_entity \<Rightarrow> shade_move" where
  "close_tilt_position e =
     \<lparr>request = \<lparr>ATTR_POSITION1 = Some MIN_POSITION,
                  ATTR_POSKIND1 = Some POS_KIND_VANE,
                  ATTR_POSITION2 = None, ATTR_POSKIND2 = None\<rparr>,
      new_positions = [(POS_KIND_PRIMARY, MIN_POSITION)]\<rparr>"

text \<open>\<open>_clamp_cover_limit\<close>: the base class returns the target unchanged.\<close>

definition clamp_cover_limit :: "shade_entity \<Rightarrow> int \<Rightarrow> py_exception + int" where
  "clamp_cover_limit e target_hass_position =
     (case entity_class e of
        PowerViewShadeTDBUBottom \<Rightarrow>
          bind (hd_position_to_hass (secondary (positions e)) MAX_POSITION)
            (\<lambda>cover_top. Inr (min target_hass_position (100 - cover_top)))
      | PowerViewShadeTDBUTop \<Rightarrow>
          bind (hd_position_to_hass (primary (positions e)) MAX_POSITION)
            (\<lambda>cover_bottom. Inr (min target_hass_position (100 - cover_bottom)))
      | _ \<Rightarrow> Inr target_hass_position)"

definition get_shade_move :: "shade_entity \<Rightarrow> int \<Rightarrow> py_exception + shade_move" where
  "get_shade_move e target_hass_position =
     (case entity_class e of
        PowerViewShade \<Rightarrow>
          bind (hass_position_to_hd target_hass_position MAX_POSITION) (\<lambda>position_one.
            Inr \<lparr>request = \<lparr>ATTR_POSITION1 = Some position_one,
                               ATTR_POSKIND1 = Some POS_KIND_PRIMARY,
                               ATTR_POSITION2 = None, ATTR_POSKIND2 = None\<rparr>,
                 new_positions = []\<rparr>)
      | PowerViewShadeTDBUBottom \<Rightarrow>
          bind (hass_position_to_hd target_hass_position MAX_POSITION) (\<lambda>position_bottom.
            Inr \<lparr>request = \<lparr>ATTR_POSITION1 = Some position_bottom,
                               ATTR_POSKIND1 = Some POS_KIND_PRIMARY,
                               ATTR_POSITION2 = Some (secondary (positions e)),
                               ATTR_POSKIND2 = Some POS_KIND_SECONDARY\<rparr>,
                 new_positions = []\<rparr>)
      | PowerViewShadeTDBUTop \<Rightarrow>
          bind (hass_position_to_hd target_hass_position MAX_POSITION) (\<lambda>position_top.
            Inr \<lparr>request = \<lparr>ATTR_POSITION1 = Some (primary (positions e)),
                               ATTR_POSKIND1 = Some POS_KIND_PRIMARY,
                               ATTR_POSITION2 = Some position_top,
                               ATTR_POSKIND2 = Some POS_KIND_SECONDARY\<rparr>,
                 new_positions = []\<rparr>)
      | _ \<Rightarrow>
          bind (hass_position_to_hd target_hass_position MAX_POSITION) (\<lambda>position_shade.
            Inr \<lparr>request = \<lparr>ATTR_POSITION1 = Some position_shade,
                               ATTR_POSKIND1 = Some POS_KIND_PRIMARY,
                               ATTR_POSITION2 = None, ATTR_POSKIND2 = None\<rparr>,
                 new_positions = [(POS_KIND_VANE, MIN_POSITION)]\<rparr>))"

definition get_shade_tilt :: "shade_entity \<Rightarrow> int \<Rightarrow> py_exception + shade_move" where
  "get_shade_tilt e target_hass_tilt_position =
     bind (hass_position_to_hd target_hass_tilt_position (max_tilt (entity_class e)))
       (\<lambda>position_vane.
          Inr \<lparr>request = \<lparr>ATTR_POSITION1 = Some position_vane,
                             ATTR_POSKIND1 = Some POS_KIND_VANE,
                             ATTR_POSITION2 = None, ATTR_POSKIND2 = None\<rparr>,
               new_positions = [(POS_KIND_PRIMARY, MIN_POSITION)]\<rparr>)"

subsection \<open>The delayed polls\<close>

text \<open>\<open>_async_cancel_scheduled_transition_update\<close>\<close>

definition async_cancel_scheduled_transition_update :: "shade_state \<Rightarrow> shade_state" where
  "async_cancel_scheduled_transition_update st =
     (let (h, e) = st;
          (h1, e1) = (case scheduled_transition_update e of
                        None \<Rightarrow> (h, e)
                      | Some handle \<Rightarrow>
                          (cancel_timer handle h, e\<lparr>scheduled_transition_update := None\<rparr>));
          (h2, e2) = (case forced_resync e1 of
                        None \<Rightarrow> (h1, e1)
                      | Some handle \<Rightarrow> (cancel_timer handle h1, e1\<lparr>forced_resync := None\<rparr>))
      in (h2, e2))"

text \<open>\<open>1 + int(TRANSITION_COMPLETE_DURATION * (steps / 100))\<close>\<close>

definition est_time_to_complete_transition :: "int \<Rightarrow> py_exception + int" where
  "est_time_to_complete_transition steps =
     bind (int_truediv steps 100) (\<lambda>q.
     bind (float_of_int TRANSITION_COMPLETE_DURATION) (\<lambda>d.
     bind (py_int (float_mul d q)) (\<lambda>n. Inr (1 + n))))"

text \<open>
  \<open>_async_schedule_update_for_transition\<close>. The previous polls are cancelled first; an
  exception of the estimate is returned without the state.
\<close>

definition async_schedule_update_for_transition ::
    "int \<Rightarrow> shade_state \<Rightarrow> py_exception + shade_state" where
  "async_schedule_update_for_transition steps st =
     (let (h1, e1) = async_cancel_scheduled_transition_update st
      in bind (est_time_to_complete_transition steps) (\<lambda>est.
           let (handle, h2) = async_call_later h1 est CompleteScheduleUpdate
           in Inr (h2, e1\<lparr>scheduled_transition_update := Some handle\<rparr>)))"

definition update_in_progress :: "shade_entity \<Rightarrow> bool" where
  "update_in_progress e \<longleftrightarrow> scheduled_transition_update e \<noteq> None \<or> forced_resync e \<noteq> None"

text \<open>
  Modelled from the spec: the shade data cache (\<open>update_shade_position\<close>,
  \<open>update_shade_positions\<close>, \<open>update_from_response\<close>) is not part of the sources; a
  reported position of a kind replaces the cached position of that kind.
\<close>

fun update_shade_position :: "shade_positions \<Rightarrow> pos_kind \<times> int \<Rightarrow> shade_positions" where
  "update_shade_position ps (POS_KIND_PRIMARY, v) = ps\<lparr>primary := v\<rparr>"
| "update_shade_position ps (POS_KIND_SECONDARY, v) = ps\<lparr>secondary := v\<rparr>"
| "update_shade_position ps (POS_KIND_VANE, v) = ps\<lparr>vane := v\<rparr>"

text \<open>
  \<open>async_update\<close>: the outcome of \<open>self._shade.refresh()\<close> is an input, the positions the
  hub reports or the exception the call raises.
\<close>

definition async_update ::
    "py_exception + (pos_kind \<times> int) list \<Rightarrow> shade_state \<Rightarrow> py_exception + shade_state" where
  "async_update refreshed st =
     (let (h, e) = st
      in if update_in_progress e then Inr st
         else bind refreshed (\<lambda>shade_data.
           Inr (h, e\<lparr>positions := foldl update_shade_position (positions e) shade_data,
                     attr_is_opening := Some False,
                     attr_is_closing := Some False\<rparr>)))"

text \<open>
  \<open>_async_complete_schedule_update\<close> suspends at its refresh, so it is two steps: up to
  the end of the refresh, and the arming of the resync poll after it.
\<close>

definition async_complete_schedule_update_refresh ::
    "py_exception + (pos_kind \<times> int) list \<Rightarrow> shade_state \<Rightarrow> py_exception + shade_state" where
  "async_complete_schedule_update_refresh refreshed st =
     (let (h, e) = st in async_update refreshed (h, e\<lparr>scheduled_transition_update := None\<rparr>))"

definition async_complete_schedule_update_resync :: "shade_state \<Rightarrow> shade_state" where
  "async_complete_schedule_update_resync st =
     (let (h, e) = st;
          (handle, h1) = async_call_later h RESYNC_DELAY ForceResync
      in (h1, e\<lparr>forced_resync := Some handle\<rparr>))"

definition async_force_resync ::
    "py_exception + (pos_kind \<times> int) list \<Rightarrow> shade_state \<Rightarrow> py_exception + shade_state" where
  "async_force_resync refreshed st =
     (let (h, e) = st in async_update refreshed (h, e\<lparr>forced_resync := None\<rparr>))"

text \<open>The host takes a timer off its list when it runs it.\<close>

definition timer_fires :: "timer \<Rightarrow> hass \<Rightarrow> hass" where
  "timer_fires t h = h\<lparr>pending := filter (\<lambda>u. timer_id u \<noteq> timer_id t) (pending h)\<rparr>"

subsection \<open>Movement\<close>

text \<open>
  \<open>_async_execute_move\<close>: the outcome of \<open>self._shade.move(move.request)\<close> is an input,
  the positions of the hub's response or the exception the call raises.
\<close>

definition async_execute_move ::
    "shade_move \<Rightarrow> py_exception + (pos_kind \<times> int) list \<Rightarrow> shade_state
      \<Rightarrow> py_exception + shade_state" where
  "async_execute_move move moved st =
     (let (h, e) = st
      in bind moved (\<lambda>response.
           Inr (h, e\<lparr>moves_sent := moves_sent e @ [request move],
                     positions := foldl update_shade_position
                        (foldl update_shade_position (positions e) (new_positions move))
                        response\<rparr>)))"

definition async_close_cover ::
    "py_exception + (pos_kind \<times> int) list \<Rightarrow> shade_state \<Rightarrow> py_exception + shade_state" where
  "async_close_cover moved st =
     bind (transition_steps (snd st)) (\<lambda>steps.
     bind (async_schedule_update_for_transition steps st) (\<lambda>st1.
     bind (async_execute_move (close_position (snd st1)) moved st1) (\<lambda>(h2, e2).
       Inr (h2, e2\<lparr>attr_is_opening := Some False, attr_is_closing := Some True\<rparr>))))"

definition async_open_cover ::
    "py_exception + (pos_kind \<times> int) list \<Rightarrow> shade_state \<Rightarrow> py_exception + shade_state" where
  "async_open_cover moved st =
     bind (transition_steps (snd st)) (\<lambda>steps.
     bind (async_schedule_update_for_transition (100 - steps) st) (\<lambda>st1.
     bind (async_execute_move (open_position (snd st1)) moved st1) (\<lambda>(h2, e2).
       Inr (h2, e2\<lparr>attr_is_opening := Some True, attr_is_closing := Some False\<rparr>))))"

text \<open>\<open>async_set_cover_position\<close>, that is \<open>_async_set_cover_position\<close> on the keyword.\<close>

definition async_set_cover_position ::
    "int \<Rightarrow> py_exception + (pos_kind \<times> int) list \<Rightarrow> shade_state
      \<Rightarrow> py_exception + shade_state" where
  "async_set_cover_position target_hass_position moved st =
     bind (clamp_cover_limit (snd st) target_hass_position) (\<lambda>target.
     bind (current_cover_position (snd st)) (\<lambda>current_hass_position.
     bind (async_schedule_update_for_transition \<bar>current_hass_position - target\<bar> st) (\<lambda>st1.
     bind (get_shade_move (snd st1) target) (\<lambda>move.
     bind (async_execute_move move moved st1) (\<lambda>(h2, e2).
       Inr (h2, e2\<lparr>attr_is_opening := Some (current_hass_position < target),
                  attr_is_closing := Some (target < current_hass_position)\<rparr>))))))"

text \<open>The tilt methods exist on the two tilt classes only.\<close>

definition async_close_cover_tilt ::
    "py_exception + (pos_kind \<times> int) list \<Rightarrow> shade_state \<Rightarrow> py_exception + shade_state" where
  "async_close_cover_tilt moved st =
     (if \<not> is_tilt_class (entity_class (snd st)) then Inl AttributeError
      else bind (transition_steps (snd st)) (\<lambda>steps.
           bind (async_schedule_update_for_transition steps st) (\<lambda>st1.
           async_execute_move (close_tilt_position (snd st1)) moved st1)))"

definition async_open_cover_tilt ::
    "py_exception + (pos_kind \<times> int) list \<Rightarrow> shade_state \<Rightarrow> py_exception + shade_state" where
  "async_open_cover_tilt moved st =
     (if \<not> is_tilt_class (entity_class (snd st)) then Inl AttributeError
      else bind (transition_steps (snd st)) (\<lambda>steps.
           bind (async_schedule_update_for_transition (100 - steps) st) (\<lambda>st1.
           async_execute_move (open_tilt_position (snd st1)) moved st1)))"

definition async_set_cover_tilt_position ::
    "int \<Rightarrow> py_exception + (pos_kind \<times> int) list \<Rightarrow> shade_state
      \<Rightarrow> py_exception + shade_state" where
  "async_set_cover_tilt_position target_hass_tilt_position moved st =
     (if \<not> is_tilt_class (entity_class (snd st)) then Inl AttributeError
      else bind (current_cover_position (snd st)) (\<lambda>current.
           bind (transition_steps (snd st)) (\<lambda>steps.
           bind (async_schedule_update_for_transition
                   \<bar>steps - (current + target_hass_tilt_position)\<bar> st) (\<lambda>st1.
           bind (get_shade_tilt (snd st1) target_hass_tilt_position) (\<lambda>move.
           async_execute_move move moved st1)))))"

text \<open>\<open>async_will_remove_from_hass\<close> cancels the pending polls.\<close>

definition async_will_remove_from_hass :: "shade_state \<Rightarrow> shade_state" where
  "async_will_remove_from_hass st = async_cancel_scheduled_transition_update st"

text \<open>
  \<open>async_stop_cover\<close>: the pending polls are cancelled, the response of \<open>shade.stop()\<close>
  is applied, and the state is refreshed.
\<close>

definition async_stop_cover ::
    "py_exception + (pos_kind \<times> int) list \<Rightarrow> py_exception + (pos_kind \<times> int) list
      \<Rightarrow> shade_state \<Rightarrow> py_exception + shade_state" where
  "async_stop_cover stopped refreshed st =
     (let (h1, e1) = async_cancel_scheduled_transition_update st
      in bind stopped (\<lambda>response.
           async_update refreshed
             (h1, e1\<lparr>positions := foldl update_shade_position (positions e1) response\<rparr>)))"

text \<open>
  What the event loop can do to a shade entity and its timers, one step at a time: a
  movement schedules its poll, a stop or a removal cancels, a pending timer runs (the
  transition poll clears its handle, and arms the resync poll once its refresh is over;
  the resync poll clears its handle), and anything else leaves handles and timers alone.
\<close>

inductive step :: "shade_state \<Rightarrow> shade_state \<Rightarrow> bool" where
  schedule: "async_schedule_update_for_transition steps st = Inr st' \<Longrightarrow> step st st'"
| cancel: "step st (async_cancel_scheduled_transition_update st)"
| transition_poll:
    "t \<in> set (pending h) \<Longrightarrow> timer_action t = CompleteScheduleUpdate \<Longrightarrow>
     step (h, e) (timer_fires t h, e\<lparr>scheduled_transition_update := None\<rparr>)"
| arm_resync: "step st (async_complete_schedule_update_resync st)"
| resync_poll:
    "t \<in> set (pending h) \<Longrightarrow> timer_action t = ForceResync \<Longrightarrow>
     step (h, e) (timer_fires t h, e\<lparr>forced_resync := None\<rparr>)"
| other:
    "scheduled_transition_update e' = scheduled_transition_update e \<Longrightarrow>
     forced_resync e' = forced_resync e \<Longrightarrow> step (h, e) (h, e')"

definition initial_state :: "shade_state \<Rightarrow> bool" where
  "initial_state st \<longleftrightarrow>
     pending (fst st) = [] \<and> scheduled_transition_update (snd st) = None
       \<and> forced_resync (snd st) = None"

inductive reachable :: "shade_state \<Rightarrow> bool" where
  reachable_init: "initial_state st \<Longrightarrow> reachable st"
| reachable_step: "reachable st \<Longrightarrow> step st st' \<Longrightarrow> reachable st'"

definition transition_timers :: "hass \<Rightarrow> timer list" where
  "transition_timers h = filter (\<lambda>t. timer_action t = CompleteScheduleUpdate) (pending h)"

subsection \<open>Setting up the shade entities\<close>

text \<open>
  What \<open>async_setup_entry\<close> reads of a shade object of the vendor library: its name, the
  class the library's factory built for it (\<open>isinstance(shade, ShadeTdbu)\<close>,
  \<open>isinstance(shade, Silhouette)\<close>), its \<open>can_tilt\<close> flag, and of its raw data the entry
  under \<open>ATTR_POSITION_DATA\<close> (\<open>None\<close> when the key is absent) and the room id.
\<close>

datatype shade_type = ShadeTdbu | Silhouette | OtherShade

record pv_shade =
  shade_name :: string
  shade_type :: shade_type
  can_tilt :: bool
  position_data :: "shade_positions option"
  room_id :: "int option"

text \<open>
  \<open>shade.refresh()\<close> under a one second timeout: the shade with its refreshed raw data,
  a timeout (suppressed, the shade is left as it was), or another exception.
\<close>

datatype refresh_outcome = Refreshed pv_shade | RefreshTimedOut | RefreshRaised py_exception

record new_entity =
  new_class :: entity_class
  new_shade :: pv_shade
  new_room_name :: string
  new_name :: string

definition create_powerview_shade_entity :: "string \<Rightarrow> pv_shade \<Rightarrow> string \<Rightarrow> new_entity list" where
  "create_powerview_shade_entity room_name shade name_before_refresh =
     (let classes =
            (if shade_type shade = ShadeTdbu
               then [PowerViewShadeTDBUTop, PowerViewShadeTDBUBottom]
             else if shade_type shade = Silhouette then [PowerViewShadeSilhouette]
             else if can_tilt shade then [PowerViewShadeWithTilt]
             else [PowerViewShade])
      in map (\<lambda>cls. \<lparr>new_class = cls, new_shade = shade, new_room_name = room_name,
                       new_name = name_before_refresh\<rparr>) classes)"

text \<open>
  The state of the loop of \<open>async_setup_entry\<close>: the entities collected so far, the
  notices logged, and the position data handed to the coordinator.
\<close>

record cover_setup =
  entities :: "new_entity list"
  info_log :: "string list"
  coordinator_positions :: "shade_positions list"

text \<open>
  The room table maps a room id to the room's name, \<open>None\<close> for a room without the
  name key; \<open>room_data.get(room_id, {}).get(ROOM_NAME_UNICODE, "")\<close>.
\<close>

definition room_name_of :: "(int \<rightharpoonup> string option) \<Rightarrow> int option \<Rightarrow> string" where
  "room_name_of room_data rid =
     (case rid of
        None \<Rightarrow> []
      | Some r \<Rightarrow> (case room_data r of None \<Rightarrow> [] | Some None \<Rightarrow> [] | Some (Some n) \<Rightarrow> n))"

fun setup_shades ::
    "(int \<rightharpoonup> string option) \<Rightarrow> (pv_shade \<times> refresh_outcome) list \<Rightarrow> cover_setup
      \<Rightarrow> py_exception + cover_setup" where
  "setup_shades room_data [] acc = Inr acc"
| "setup_shades room_data ((raw_shade, outcome) # rest) acc =
     (let name_before_refresh = shade_name raw_shade
      in case outcome of
           RefreshRaised e \<Rightarrow> Inl e
         | _ \<Rightarrow>
           (let shade = (case outcome of Refreshed s \<Rightarrow> s | _ \<Rightarrow> raw_shade)
            in case position_data shade of
                 None \<Rightarrow>
                   setup_shades room_data rest
                     (acc\<lparr>info_log := info_log acc @ [name_before_refresh]\<rparr>)
               | Some ps \<Rightarrow>
                   setup_shades room_data rest
                     (acc\<lparr>coordinator_positions := coordinator_positions acc @ [ps],
                          entities := entities acc @
                            create_powerview_shade_entity
                              (room_name_of room_data (room_id shade)) shade
                              name_before_refresh\<rparr>)))"

text \<open>\<open>async_setup_entry\<close> of the shade platform; the result is what it adds and logs.\<close>

definition cover_async_setup_entry ::
    "(int \<rightharpoonup> string option) \<Rightarrow> (pv_shade \<times> refresh_outcome) list \<Rightarrow> py_exception + cover_setup" where
  "cover_async_setup_entry room_data shade_data =
     setup_shades room_data shade_data
       \<lparr>entities = [], info_log = [], coordinator_positions = []\<rparr>"

text \<open>The shade as the loop sees it after the refresh.\<close>

definition refreshed_shade :: "pv_shade \<times> refresh_outcome \<Rightarrow> pv_shade" where
  "refreshed_shade x = (case snd x of Refreshed s \<Rightarrow> s | _ \<Rightarrow> fst x)"

definition refresh_raises :: "pv_shade \<times> refresh_outcome \<Rightarrow> bool" where
  "refresh_raises x = (case snd x of RefreshRaised _ \<Rightarrow> True | _ \<Rightarrow> False)"

section \<open>The alarm panel (hive/alarm\_control\_panel.py)\<close>

text \<open>
  Modelled from the spec: the four alarm states are string constants of the host, which is
  not part of the sources; the spec names them disarmed, armed-night, armed-away and
  triggered.
\<close>

datatype alarm_state =
    STATE_ALARM_DISARMED
  | STATE_ALARM_ARMED_NIGHT
  | STATE_ALARM_ARMED_AWAY
  | STATE_ALARM_TRIGGERED

definition HIVETOHA :: "string \<rightharpoonup> alarm_state" where
  "HIVETOHA =
     [''home'' \<mapsto> STATE_ALARM_DISARMED,
      ''asleep'' \<mapsto> STATE_ALARM_ARMED_NIGHT,
      ''away'' \<mapsto> STATE_ALARM_ARMED_AWAY]"

text \<open>The device is a dictionary of dictionaries.\<close>

type_synonym hive_device = "string \<rightharpoonup> (string \<rightharpoonup> py_value)"

record alarm_entity =
  device :: hive_device
  attr_available :: py_value
  attr_state :: "alarm_state option"

text \<open>
  \<open>HiveAlarmControlPanelEntity.async_update\<close>. The outcome of the two vendor calls
  (\<open>updateData\<close>, then \<open>getAlarm\<close>) is an input: the device returned, or the exception
  raised. A failed subscript raises \<open>KeyError\<close>; \<open>.get("online")\<close> is \<open>None\<close> on an
  absent key.
\<close>

definition alarm_async_update ::
    "py_exception + hive_device \<Rightarrow> alarm_entity \<Rightarrow> py_exception + alarm_entity" where
  "alarm_async_update fetched e =
     bind fetched (\<lambda>dev.
       case dev ''deviceData'' of
         None \<Rightarrow> Inl KeyError
       | Some device_data \<Rightarrow>
           (let available = (case device_data ''online'' of None \<Rightarrow> PyNone | Some v \<Rightarrow> v);
                e1 = e\<lparr>device := dev, attr_available := available\<rparr>
            in if truthy available then
                 (case dev ''status'' of
                    None \<Rightarrow> Inl KeyError
                  | Some status \<Rightarrow>
                      (case status ''state'' of
                         None \<Rightarrow> Inl KeyError
                       | Some state \<Rightarrow>
                           if truthy state then Inr (e1\<lparr>attr_state := Some STATE_ALARM_TRIGGERED\<rparr>)
                           else (case status ''mode'' of
                                   None \<Rightarrow> Inl KeyError
                                 | Some (PyStr mode) \<Rightarrow>
                                     (case HIVETOHA mode of
                                        None \<Rightarrow> Inl KeyError
                                      | Some s \<Rightarrow> Inr (e1\<lparr>attr_state := Some s\<rparr>))
                                 | Some _ \<Rightarrow> Inl KeyError)))
               else Inr e1))"

section \<open>The irrigation controller (rachio/\_\_init\_\_.py)\<close>

text \<open>
  The config entry: \<open>config[CONF_API_KEY]\<close>, and the manual run minutes of the config and
  of the options (\<open>None\<close> for an absent key).
\<close>

record rachio_entry =
  config_api_key :: "string option"
  config_manual_run_mins :: "py_value option"
  options_manual_run_mins :: "py_value option"

datatype setup_outcome = Returns bool | Raises py_exception

record rachio_setup =
  entry :: rachio_entry
  outcome :: setup_outcome
  error_log :: "string list"
  webhook_registered :: bool

definition get_truthy :: "py_value option \<Rightarrow> bool" where
  "get_truthy v = (case v of None \<Rightarrow> False | Some x \<Rightarrow> truthy x)"

text \<open>
  \<open>async_setup_entry\<close>. The outcomes of the two awaited calls are inputs: the webhook id
  and url that \<open>async_get_or_create_registered_webhook_id_and_url\<close> returns or the
  exception it raises, and the controllers that \<open>person.async_setup\<close> leaves in
  \<open>person.controllers\<close> or the exception it raises.
\<close>

definition rachio_async_setup_entry ::
    "rachio_entry \<Rightarrow> py_exception + string \<times> string \<Rightarrow> py_exception + string list
      \<Rightarrow> rachio_setup" where
  "rachio_async_setup_entry entry0 webhook person_setup =
     (let entry1 =
            (if \<not> get_truthy (options_manual_run_mins entry0)
                  \<and> get_truthy (config_manual_run_mins entry0)
             then entry0\<lparr>options_manual_run_mins := config_manual_run_mins entry0\<rparr>
             else entry0);
          done = (\<lambda>res log reg.
            \<lparr>entry = entry1, outcome = res, error_log = log, webhook_registered = reg\<rparr>)
      in case config_api_key entry1 of
           None \<Rightarrow> done (Raises KeyError) [] False
         | Some api_key \<Rightarrow>
             (case webhook of
                Inl exc \<Rightarrow>
                  if exc = CloudNotConnected then done (Raises ConfigEntryNotReady) [] False
                  else done (Raises exc) [] False
              | Inr (webhook_id, webhook_url) \<Rightarrow>
                  (case person_setup of
                     Inl error \<Rightarrow>
                       if error = ConfigEntryAuthFailed
                         then done (Returns False) [''Authentication failed''] False
                       else if error = ConnectTimeout
                         then done (Raises ConfigEntryNotReady)
                                [''Could not reach the Rachio API''] False
                       else done (Raises error) [] False
                   | Inr controllers \<Rightarrow>
                       if controllers = []
                         then done (Returns False) [''No Rachio devices found in account''] False
                       else done (Returns True) [] True)))"

section \<open>Facts about binary64 rounding\<close>

lemma round_half_even_err: "\<bar>of_int (round_half_even y) - y\<bar> \<le> 1 / 2"
proof -
  have "of_int \<lfloor>y\<rfloor> \<le> y" and "y < of_int \<lfloor>y\<rfloor> + 1"
    by linarith+
  then show ?thesis
    unfolding round_half_even_def Let_def by (simp split: if_splits)
qed

lemma round_half_even_eq:
  assumes "of_int k - 1 / 2 < y" and "y < of_int k + 1 / 2"
  shows "round_half_even y = k"
proof -
  have "\<bar>of_int (round_half_even y) - y\<bar> \<le> 1 / 2" by (rule round_half_even_err)
  with assms have "\<bar>(of_int (round_half_even y - k) :: rat)\<bar> < 1" by (simp; linarith)
  then have "\<bar>round_half_even y - k\<bar> < 1"
    by (metis of_int_abs of_int_less_1_iff)
  then show ?thesis by linarith
qed

lemma binade_lower_ge1:
  fixes x :: rat
  assumes "1 \<le> \<bar>x\<bar>"
  shows "2 powi (bitlen \<lfloor>\<bar>x\<bar>\<rfloor> - 1) \<le> \<bar>x\<bar>" and "\<bar>x\<bar> < 2 powi (bitlen \<lfloor>\<bar>x\<bar>\<rfloor>)"
proof -
  let ?n = "\<lfloor>\<bar>x\<bar>\<rfloor>"
  have n: "0 < ?n" using assms by simp
  from bitlen_bounds[OF n] have b: "2 ^ nat (bitlen ?n - 1) \<le> ?n" "?n < 2 ^ nat (bitlen ?n)"
    by auto
  have bl: "1 \<le> bitlen ?n" using n by (simp add: bitlen_alt_def)
  have "(2::rat) powi (bitlen ?n - 1) = 2 ^ nat (bitlen ?n - 1)"
    using bl by (simp add: power_int_def)
  also have "\<dots> = of_int (2 ^ nat (bitlen ?n - 1))" by simp
  also have "\<dots> \<le> of_int ?n" using b(1) by (simp only: of_int_le_iff)
  also have "\<dots> \<le> \<bar>x\<bar>" by simp
  finally show "2 powi (bitlen ?n - 1) \<le> \<bar>x\<bar>" .
  have "?n + 1 \<le> 2 ^ nat (bitlen ?n)" using b(2) by simp
  then have "(of_int (?n + 1) :: rat) \<le> of_int (2 ^ nat (bitlen ?n))"
    by (simp only: of_int_le_iff)
  moreover have "\<bar>x\<bar> < of_int (?n + 1)" by simp linarith
  moreover have "(2::rat) powi (bitlen ?n) = 2 ^ nat (bitlen ?n)"
    using bl by (simp add: power_int_def)
  ultimately show "\<bar>x\<bar> < 2 powi (bitlen ?n)" by simp
qed

lemma binade_bounds_lt1:
  fixes x :: rat
  assumes "x \<noteq> 0" and "\<bar>x\<bar> < 1"
  shows "2 powi (- bitlen (\<lceil>1 / \<bar>x\<bar>\<rceil> - 1)) \<le> \<bar>x\<bar>"
    and "\<bar>x\<bar> < 2 powi (- bitlen (\<lceil>1 / \<bar>x\<bar>\<rceil> - 1) + 1)"
proof -
  let ?y = "1 / \<bar>x\<bar>"
  let ?n = "\<lceil>?y\<rceil> - 1"
  have xpos: "0 < \<bar>x\<bar>" using assms(1) by simp
  have y1: "1 < ?y" using assms xpos by (simp add: field_simps)
  have n: "0 < ?n" using y1 by linarith
  have ny: "of_int ?n < ?y" "?y \<le> of_int ?n + 1" by linarith+
  from bitlen_bounds[OF n] have b: "2 ^ nat (bitlen ?n - 1) \<le> ?n" "?n < 2 ^ nat (bitlen ?n)"
    by auto
  have bl: "1 \<le> bitlen ?n" using n by (simp add: bitlen_alt_def)
  have "?n + 1 \<le> 2 ^ nat (bitlen ?n)" using b(2) by simp
  then have "(of_int (?n + 1) :: rat) \<le> of_int (2 ^ nat (bitlen ?n))"
    by (simp only: of_int_le_iff)
  moreover have "(of_int (?n + 1) :: rat) = of_int ?n + 1" by simp
  moreover have "(of_int (2 ^ nat (bitlen ?n)) :: rat) = 2 ^ nat (bitlen ?n)" by simp
  ultimately have up: "?y \<le> 2 ^ nat (bitlen ?n)" using ny(2) by linarith
  have "(of_int (2 ^ nat (bitlen ?n - 1)) :: rat) \<le> of_int ?n"
    using b(1) by (simp only: of_int_le_iff)
  moreover have "(of_int (2 ^ nat (bitlen ?n - 1)) :: rat) = 2 ^ nat (bitlen ?n - 1)" by simp
  ultimately have lo: "2 ^ nat (bitlen ?n - 1) < ?y" using ny(1) by linarith
  have p1: "(2::rat) powi (- bitlen ?n) = 1 / 2 ^ nat (bitlen ?n)"
    using bl by (simp add: power_int_def field_simps)
  have p2: "(2::rat) powi (- bitlen ?n + 1) = 1 / 2 ^ nat (bitlen ?n - 1)"
  proof -
    have "- bitlen ?n + 1 = - (bitlen ?n - 1)" by simp
    then have "(2::rat) powi (- bitlen ?n + 1) = inverse (2 powi (bitlen ?n - 1))"
      by (simp only: power_int_minus)
    also have "\<dots> = 1 / 2 ^ nat (bitlen ?n - 1)"
      using bl by (simp add: power_int_def field_simps)
    finally show ?thesis .
  qed
  have "1 / 2 ^ nat (bitlen ?n) \<le> \<bar>x\<bar>"
    using up xpos by (simp add: field_simps)
  then show "2 powi (- bitlen ?n) \<le> \<bar>x\<bar>" by (simp only: p1)
  have "\<bar>x\<bar> < 1 / 2 ^ nat (bitlen ?n - 1)"
    using lo xpos by (simp add: field_simps)
  then show "\<bar>x\<bar> < 2 powi (- bitlen ?n + 1)" by (simp only: p2)
qed

lemma binade_bounds:
  assumes "x \<noteq> 0"
  shows "2 powi (binade x) \<le> \<bar>x\<bar>" and "\<bar>x\<bar> < 2 powi (binade x + 1)"
proof -
  show "2 powi (binade x) \<le> \<bar>x\<bar>"
    using binade_lower_ge1(1)[of x] binade_bounds_lt1(1)[OF assms]
    by (cases "1 \<le> \<bar>x\<bar>") (simp_all add: binade_def)
  show "\<bar>x\<bar> < 2 powi (binade x + 1)"
    using binade_lower_ge1(2)[of x] binade_bounds_lt1(2)[OF assms]
    by (cases "1 \<le> \<bar>x\<bar>") (simp_all add: binade_def)
qed

lemma binade_le:
  assumes "x \<noteq> 0" and "\<bar>x\<bar> < 2 powi (e + 1)"
  shows "binade x \<le> e"
proof -
  have "(2::rat) powi (binade x) < 2 powi (e + 1)"
    using binade_bounds(1)[OF assms(1)] assms(2) by linarith
  moreover have "(2::rat) powi (e + 1) \<le> 2 powi (binade x)" if "e + 1 \<le> binade x"
    using that by (intro power_int_increasing) simp_all
  ultimately have "binade x < e + 1" by (meson not_le)
  then show ?thesis by simp
qed

lemma ulp_pos: "0 < ulp x"
  by (simp add: ulp_def)

lemma round_double_err: "\<bar>round_double x - x\<bar> \<le> ulp x / 2"
proof (cases "x = 0")
  case True
  then show ?thesis using ulp_pos[of x] by (simp add: round_double_def)
next
  case False
  have u: "0 < ulp x" by (rule ulp_pos)
  have "\<bar>of_int (round_half_even (x / ulp x)) - x / ulp x\<bar> \<le> 1 / 2"
    by (rule round_half_even_err)
  then have "\<bar>of_int (round_half_even (x / ulp x)) - x / ulp x\<bar> * ulp x \<le> 1 / 2 * ulp x"
    using u by (simp only: mult_le_cancel_right_pos)
  moreover have "\<bar>of_int (round_half_even (x / ulp x)) - x / ulp x\<bar> * ulp x
      = \<bar>round_double x - x\<bar>"
  proof -
    have "\<bar>of_int (round_half_even (x / ulp x)) - x / ulp x\<bar> * ulp x
        = \<bar>(of_int (round_half_even (x / ulp x)) - x / ulp x) * ulp x\<bar>"
      using u by (simp add: abs_mult)
    also have "(of_int (round_half_even (x / ulp x)) - x / ulp x) * ulp x = round_double x - x"
      using u False by (simp add: round_double_def field_simps)
    finally show ?thesis .
  qed
  ultimately show ?thesis by simp
qed

lemma round_double_err_bound:
  assumes "\<bar>x\<bar> < 2 powi (e + 1)" and "- 1022 \<le> e"
  shows "\<bar>round_double x - x\<bar> \<le> 2 powi (e - 53)"
proof (cases "x = 0")
  case True
  then show ?thesis by (simp add: round_double_def)
next
  case False
  have "binade x \<le> e" by (rule binade_le[OF False assms(1)])
  then have "max (binade x) (- 1022) - 52 \<le> e - 52" using assms(2) by simp
  then have "ulp x \<le> 2 powi (e - 52)"
    unfolding ulp_def by (intro power_int_increasing) simp_all
  moreover have "(2::rat) powi (e - 52) = 2 * 2 powi (e - 53)"
    using power_int_add_1'[of "2::rat" "e - 53"] by simp
  ultimately show ?thesis using round_double_err[of x] by linarith
qed

lemma bitlen_numeral_simps:
  "bitlen 1 = 1"
  "bitlen (numeral Num.One) = 1"
  "bitlen (numeral (Num.Bit0 n)) = bitlen (numeral n) + 1"
  "bitlen (numeral (Num.Bit1 n)) = bitlen (numeral n) + 1"
proof -
  show "bitlen 1 = 1" by (subst compute_bitlen) simp
  then show "bitlen (numeral Num.One) = 1" by simp
  have "numeral (Num.Bit0 n) div (2::int) = numeral n" by simp
  then show "bitlen (numeral (Num.Bit0 n)) = bitlen (numeral n) + 1"
    by (subst compute_bitlen) simp
  have "numeral (Num.Bit1 n) div (2::int) = numeral n" by simp
  then show "bitlen (numeral (Num.Bit1 n)) = bitlen (numeral n) + 1"
    by (subst compute_bitlen) simp
qed

lemma floor_rat_numeral:
  "\<lfloor>numeral a / numeral b :: rat\<rfloor> = numeral a div numeral b"
  by (metis floor_divide_of_int_eq of_int_numeral)

lemma ceiling_rat_numeral:
  "\<lceil>numeral a / numeral b :: rat\<rceil> = - (- numeral a div numeral b)"
  using ceiling_divide_eq_div[of "numeral a" "numeral b", where ?'a = rat] by simp

lemmas double_eval = round_double_def ulp_def binade_def round_half_even_def Let_def
  bitlen_numeral_simps floor_rat_numeral ceiling_rat_numeral


lemma bind_simps:
  "bind (Inr a) f = f a"
  "bind (Inl e) f = Inl e"
  by (simp_all add: bind_def)

lemma bind_weak_cong: "m = m' \<Longrightarrow> bind m f = bind m' f"
  by simp

lemma to_py_float_small:
  assumes "\<bar>x\<bar> \<le> 2 ^ 64"
  shows "to_py_float x = Finite (round_double x)"
proof -
  have p: "(2::rat) ^ 64 < 2 powi (64 + 1)" by simp
  have "\<bar>x\<bar> < 2 powi (64 + 1)" using assms p by linarith
  then have "\<bar>round_double x - x\<bar> \<le> 2 powi (64 - 53)"
    by (rule round_double_err_bound) simp
  then have "\<bar>round_double x\<bar> \<le> 2 ^ 64 + 2 ^ 11" using assms by simp
  moreover have "(2::rat) ^ 64 + 2 ^ 11 < 2 ^ 1024"
  proof -
    have "(2::rat) ^ 64 + 2 ^ 11 < 2 ^ 65" by simp
    also have "(2::rat) ^ 65 \<le> 2 ^ 1024" by (rule power_increasing) simp_all
    finally show ?thesis .
  qed
  ultimately have "\<not> 2 powi 1024 \<le> \<bar>round_double x\<bar>" by simp
  then show ?thesis by (simp only: to_py_float_def Let_def if_False)
qed

lemma int_truediv_small:
  assumes "b \<noteq> 0" and "\<bar>of_int a / of_int b :: rat\<bar> \<le> 2 ^ 64"
  shows "int_truediv a b = Inr (round_double (of_int a / of_int b))"
  using assms by (simp add: int_truediv_def to_py_float_small)

lemma float_of_int_small:
  assumes "\<bar>of_int n :: rat\<bar> \<le> 2 ^ 64"
  shows "float_of_int n = Inr (round_double (of_int n))"
  using assms by (simp add: float_of_int_def to_py_float_small)

lemma float_mul_small:
  assumes "\<bar>x * y\<bar> \<le> 2 ^ 64"
  shows "float_mul x y = Finite (round_double (x * y))"
  using assms by (simp add: float_mul_def to_py_float_small)

lemma py_round_Finite: "py_round (Finite r) = Inr (round_half_even r)"
  by (simp add: py_round_def)

lemma py_int_Finite: "py_int (Finite r) = Inr (truncate_rat r)"
  by (simp add: py_int_def)

lemmas py_eval = bind_simps int_truediv_small float_of_int_small float_mul_small
  py_round_Finite py_int_Finite truncate_rat_def

lemma hd_position_to_hass_65535:
  assumes "0 \<le> p" and "p \<le> 65535"
  shows "hd_position_to_hass p 65535 = Inr ((200 * p + 65535) div 131070)"
proof -
  define q0 :: rat where "q0 = of_int p / of_int 65535"
  define q where "q = round_double q0"
  define x where "x = round_double (q * 100)"
  define k where "k = (200 * p + 65535) div 131070"
  have p_rat: "(0::rat) \<le> of_int p" "(of_int p :: rat) \<le> 65535"
    using assms by simp_all
  have q0_bounds: "0 \<le> q0" "q0 \<le> 1"
    using p_rat by (simp_all add: q0_def)
  have "\<bar>q0\<bar> < 2 powi (0 + 1)" using q0_bounds by simp
  then have "\<bar>round_double q0 - q0\<bar> \<le> 2 powi (0 - 53)"
    by (rule round_double_err_bound) simp
  then have q_err: "\<bar>q - q0\<bar> \<le> 1 / 2 ^ 53"
    by (simp add: q_def power_int_minus_divide)
  have dq: "\<bar>q - q0\<bar> \<le> 1 / 52428000" using q_err by (rule order_trans) simp
  have q_abs: "\<bar>q\<bar> \<le> 5 / 4" using dq q0_bounds by linarith
  have "\<bar>q * 100\<bar> = \<bar>q\<bar> * 100" by (simp add: abs_mult)
  then have q100: "\<bar>q * 100\<bar> \<le> 125" using q_abs by linarith
  then have "\<bar>q * 100\<bar> < 2 powi (6 + 1)" by simp
  then have "\<bar>round_double (q * 100) - q * 100\<bar> \<le> 2 powi (6 - 53)"
    by (rule round_double_err_bound) simp
  then have x_err: "\<bar>x - q * 100\<bar> \<le> 1 / 2 ^ 47"
    by (simp add: x_def power_int_minus_divide)
  have div1: "int_truediv p 65535 = Inr q"
    unfolding q_def q0_def using q0_bounds
    by (intro int_truediv_small) (simp_all add: q0_def)
  have mul1: "float_mul q 100 = Finite x"
    unfolding x_def using q100 by (intro float_mul_small) simp
  define a where "a = 200 * p + 65535"
  have a_eq: "a = 131070 * k + a mod 131070"
    unfolding k_def a_def [symmetric] by (simp only: mult_div_mod_eq)
  have a_mod: "0 \<le> a mod 131070" "a mod 131070 < 131070" by simp_all
  have "odd a" by (simp add: a_def)
  have "a mod 131070 \<noteq> 0"
  proof
    assume "a mod 131070 = 0"
    with a_eq have "a = 131070 * k" by simp
    then have "even a" by simp
    with \<open>odd a\<close> show False by simp
  qed
  with a_eq a_mod have "131070 * k + 1 \<le> a" and "a \<le> 131070 * k + 131069" by linarith+
  then have k1: "131070 * k + 1 \<le> 200 * p + 65535"
    and k2: "200 * p + 65535 \<le> 131070 * k + 131069"
    by (simp_all only: a_def)
  have "(of_int (131070 * k + 1) :: rat) \<le> of_int (200 * p + 65535)"
    using k1 by (simp only: of_int_le_iff)
  then have r1: "131070 * (of_int k :: rat) + 1 \<le> 200 * of_int p + 65535" by simp
  have "(of_int (200 * p + 65535) :: rat) \<le> of_int (131070 * k + 131069)"
    using k2 by (simp only: of_int_le_iff)
  then have r2: "200 * (of_int p :: rat) + 65535 \<le> 131070 * of_int k + 131069" by simp
  have q0p: "65535 * q0 = of_int p" by (simp add: q0_def)
  have dx: "\<bar>x - q * 100\<bar> \<le> 1 / 524280" using x_err by (rule order_trans) simp
  have "of_int k - 1 / 2 < x" and "x < of_int k + 1 / 2"
    using r1 r2 q0p dq dx by linarith+
  then have "round_half_even x = k" by (rule round_half_even_eq)
  then have "py_round (float_mul q 100) = Inr k"
    by (simp only: mul1 py_round_Finite)
  then show ?thesis
    unfolding hd_position_to_hass_def k_def [symmetric] div1 by (simp only: bind_simps)
qed

section \<open>Shades: the position conversions\<close>

text \<open>
  The host-to-vendor conversion on the percentages, by evaluation of the two float
  operations at each of them: the result is the exact quotient rounded down.
\<close>

lemma hass_position_to_hd_65535_list1:
  "list_all (\<lambda>h. hass_position_to_hd h 65535 = Inr (h * 65535 div 100)) [0..25]"
  unfolding hass_position_to_hd_def
  by (simp add: upto.simps py_eval double_eval cong: bind_weak_cong)

lemma hass_position_to_hd_65535_list2:
  "list_all (\<lambda>h. hass_position_to_hd h 65535 = Inr (h * 65535 div 100)) [26..50]"
  unfolding hass_position_to_hd_def
  by (simp add: upto.simps py_eval double_eval cong: bind_weak_cong)

lemma hass_position_to_hd_65535_list3:
  "list_all (\<lambda>h. hass_position_to_hd h 65535 = Inr (h * 65535 div 100)) [51..75]"
  unfolding hass_position_to_hd_def
  by (simp add: upto.simps py_eval double_eval cong: bind_weak_cong)

lemma hass_position_to_hd_65535_list4:
  "list_all (\<lambda>h. hass_position_to_hd h 65535 = Inr (h * 65535 div 100)) [76..100]"
  unfolding hass_position_to_hd_def
  by (simp add: upto.simps py_eval double_eval cong: bind_weak_cong)

lemma hass_position_to_hd_65535:
  assumes "0 \<le> h" and "h \<le> 100"
  shows "hass_position_to_hd h 65535 = Inr (h * 65535 div 100)"
proof -
  have "h \<in> set [0..25] \<or> h \<in> set [26..50] \<or> h \<in> set [51..75] \<or> h \<in> set [76..100]"
    unfolding set_upto atLeastAtMost_iff using assms by arith
  then show ?thesis
    using hass_position_to_hd_65535_list1 hass_position_to_hd_65535_list2
      hass_position_to_hd_65535_list3 hass_position_to_hd_65535_list4
    unfolding list_all_iff by blast
qed

lemma round_trip_arith:
  fixes h :: int
  assumes "0 \<le> h" and "h \<le> 100"
  shows "(200 * (h * 65535 div 100) + 65535) div 131070 = h"
proof -
  define p where "p = h * 65535 div 100"
  have "h * 65535 = 100 * p + h * 65535 mod 100"
    unfolding p_def by (simp only: mult_div_mod_eq)
  moreover have "0 \<le> h * 65535 mod 100" "h * 65535 mod 100 < 100" by simp_all
  ultimately have p1: "100 * p \<le> 65535 * h" and p2: "65535 * h < 100 * p + 100" by linarith+
  have "131070 * h \<le> 200 * p + 65535" and "200 * p + 65535 < 131070 * h + 131070"
    using p1 p2 assms by linarith+
  then have "(200 * p + 65535) div 131070 = h"
    by (intro div_pos_pos_trivial int_div_pos_eq [where r = "200 * p + 65535 - 131070 * h"]) linarith+
  then show ?thesis by (simp only: p_def)
qed

lemma vendor_round_trip_arith:
  fixes p :: int
  assumes "0 \<le> p" and "p \<le> 65535"
  shows "\<bar>((200 * p + 65535) div 131070) * 65535 div 100 - p\<bar> \<le> 328"
    and "0 \<le> (200 * p + 65535) div 131070" and "(200 * p + 65535) div 131070 \<le> 100"
proof -
  define h where "h = (200 * p + 65535) div 131070"
  define p' where "p' = h * 65535 div 100"
  have "200 * p + 65535 = 131070 * h + (200 * p + 65535) mod 131070"
    unfolding h_def by (simp only: mult_div_mod_eq)
  moreover have "0 \<le> (200 * p + 65535) mod 131070" "(200 * p + 65535) mod 131070 < 131070"
    by simp_all
  ultimately have h1: "131070 * h \<le> 200 * p + 65535" and h2: "200 * p + 65535 < 131070 * h + 131070"
    by linarith+
  have "h * 65535 = 100 * p' + h * 65535 mod 100"
    unfolding p'_def by (simp only: mult_div_mod_eq)
  moreover have "0 \<le> h * 65535 mod 100" "h * 65535 mod 100 < 100" by simp_all
  ultimately have p1: "100 * p' \<le> 65535 * h" and p2: "65535 * h < 100 * p' + 100" by linarith+
  have "\<bar>p' - p\<bar> \<le> 328" using h1 h2 p1 p2 by linarith
  then show "\<bar>((200 * p + 65535) div 131070) * 65535 div 100 - p\<bar> \<le> 328"
    by (simp only: p'_def h_def)
  have "0 \<le> h" and "h \<le> 100" using h1 h2 assms by linarith+
  then show "0 \<le> (200 * p + 65535) div 131070" and "(200 * p + 65535) div 131070 \<le> 100"
    by (simp_all only: h_def)
qed

text \<open>
  Claim C9: with the maximum 65535, vendor position 65535 converts to host position 100 and
  vendor position 491 to host position 1. The closed threshold is the float written
  491.5125 (the binary64 number nearest to it), which lies between 491 and 492: a shade with
  primary position 491 is reported closed, one with primary position 492 is not.
\<close>

theorem position_examples_and_closed_threshold:
  "hd_position_to_hass 65535 65535 = Inr 100
   \<and> hd_position_to_hass 491 65535 = Inr 1
   \<and> CLOSED_POSITION = round_double (4915125 / 10000)
   \<and> 491 < CLOSED_POSITION \<and> CLOSED_POSITION < 492
   \<and> is_closed (e\<lparr>entity_class := PowerViewShade,
                   positions := \<lparr>primary = 491, secondary = s, vane = v\<rparr>\<rparr>)
   \<and> \<not> is_closed (e\<lparr>entity_class := PowerViewShade,
                     positions := \<lparr>primary = 492, secondary = s, vane = v\<rparr>\<rparr>)"
proof -
  have a: "hd_position_to_hass 65535 65535 = Inr 100"
    using hd_position_to_hass_65535 [of 65535] by simp
  have b: "hd_position_to_hass 491 65535 = Inr 1"
    using hd_position_to_hass_65535 [of 491] by simp
  have c: "CLOSED_POSITION = round_double (4915125 / 10000)"
    by (simp add: CLOSED_POSITION_def MAX_POSITION_def MIN_POSITION_def double_eval)
  have d: "491 < CLOSED_POSITION" "CLOSED_POSITION < 492"
    by (simp_all add: CLOSED_POSITION_def MAX_POSITION_def MIN_POSITION_def double_eval)
  show ?thesis
    using a b c d by (simp add: is_closed_def)
qed

text \<open>
  Claim C10: for every host percentage \<open>h\<close> in [0, 100], converting \<open>h\<close> to a vendor
  position and back, both with the maximum 65535, returns exactly \<open>h\<close>.
\<close>

theorem percent_round_trip_identity:
  assumes "0 \<le> h" and "h \<le> 100"
  shows "hass_position_to_hd h 65535 = Inr (h * 65535 div 100)
       \<and> hd_position_to_hass (h * 65535 div 100) 65535 = Inr h"
proof -
  define p where "p = h * 65535 div 100"
  have "h * 65535 = 100 * p + h * 65535 mod 100"
    unfolding p_def by (simp only: mult_div_mod_eq)
  moreover have "0 \<le> h * 65535 mod 100" "h * 65535 mod 100 < 100" by simp_all
  ultimately have "0 \<le> p" and "p \<le> 65535" using assms by linarith+
  then have "hd_position_to_hass p 65535 = Inr ((200 * p + 65535) div 131070)"
    by (rule hd_position_to_hass_65535)
  then have "hd_position_to_hass p 65535 = Inr h"
    using round_trip_arith [OF assms] by (simp only: p_def)
  then show ?thesis
    using hass_position_to_hd_65535 [OF assms] by (simp only: p_def)
qed

theorem percent_round_trip_identity_witness:
  "(0::int) \<le> 50 \<and> (50::int) \<le> 100
   \<and> hass_position_to_hd 50 65535 = Inr 32767
   \<and> hd_position_to_hass 32767 65535 = Inr 50"
  using percent_round_trip_identity [of 50] by simp

text \<open>
  Claim C1, as the code has it: for every vendor position \<open>p\<close> in [0, 65535], converting
  \<open>p\<close> to a host percentage (rounding) and the result back to a vendor position
  (truncation), both with the maximum 65535, yields a value within 328 of \<open>p\<close>: the
  percentage keeps \<open>p\<close> to half a percent of the range, 327.675, and the truncation adds
  less than one.
\<close>

theorem vendor_round_trip_within_328:
  assumes "0 \<le> p" and "p \<le> 65535"
  shows "hd_position_to_hass p 65535 = Inr ((200 * p + 65535) div 131070)
       \<and> hass_position_to_hd ((200 * p + 65535) div 131070) 65535
           = Inr ((200 * p + 65535) div 131070 * 65535 div 100)
       \<and> \<bar>(200 * p + 65535) div 131070 * 65535 div 100 - p\<bar> \<le> 328"
  using hd_position_to_hass_65535 [OF assms] vendor_round_trip_arith [OF assms]
    hass_position_to_hd_65535 [of "(200 * p + 65535) div 131070"]
  by simp

theorem vendor_round_trip_within_328_witness:
  "(0::int) \<le> 40000 \<and> (40000::int) \<le> 65535
   \<and> hd_position_to_hass 40000 65535 = Inr 61
   \<and> hass_position_to_hd 61 65535 = Inr 39976
   \<and> \<bar>39976 - 40000\<bar> \<le> (328::int)"
  using vendor_round_trip_within_328 [of 40000] by simp

text \<open>
  Within 1 it is not: vendor position 983 converts to 1 percent, and 1 percent converts
  back to 655.
\<close>

theorem vendor_round_trip_counterexample:
  "hd_position_to_hass 983 65535 = Inr 1
   \<and> hass_position_to_hd 1 65535 = Inr 655
   \<and> \<not> \<bar>655 - 983\<bar> \<le> (1::int)"
proof -
  have a: "hd_position_to_hass 983 65535 = Inr 1"
    using hd_position_to_hass_65535 [of 983] by simp
  have b: "hass_position_to_hd 1 65535 = Inr 655"
    unfolding hass_position_to_hd_def
    by (simp add: py_eval double_eval cong: bind_weak_cong)
  show ?thesis using a b by simp
qed

section \<open>The alarm panel: the triggered flag\<close>

text \<open>
  Claim C3, as the code has it: for every alarm update in which the device is reported
  online (a truthy \<open>online\<close> entry of the device data) and the vendor reports a truthy
  triggered flag (\<open>status.state\<close>), the update succeeds and the resulting alarm state is
  the triggered state, whatever the mode entry is (it is not even read).
\<close>

theorem triggered_report_of_online_alarm:
  assumes "dev ''deviceData'' = Some device_data"
    and "device_data ''online'' = Some online" and "truthy online"
    and "dev ''status'' = Some status"
    and "status ''state'' = Some state" and "truthy state"
  shows "alarm_async_update (Inr dev) e
           = Inr (e\<lparr>device := dev, attr_available := online,
                    attr_state := Some STATE_ALARM_TRIGGERED\<rparr>)"
  using assms by (simp add: alarm_async_update_def bind_def Let_def)

text \<open>The theorem at an online, triggered device whose mode is \<open>home\<close>.\<close>

theorem triggered_report_of_online_alarm_witness:
  "[''deviceData'' \<mapsto> [''online'' \<mapsto> PyBool True],
    ''status'' \<mapsto> [''state'' \<mapsto> PyBool True, ''mode'' \<mapsto> PyStr ''home'']] ''deviceData''
      = Some [''online'' \<mapsto> PyBool True]
   \<and> [''online'' \<mapsto> PyBool True] ''online'' = Some (PyBool True)
   \<and> truthy (PyBool True)
   \<and> [''deviceData'' \<mapsto> [''online'' \<mapsto> PyBool True],
    ''status'' \<mapsto> [''state'' \<mapsto> PyBool True, ''mode'' \<mapsto> PyStr ''home'']] ''status''
      = Some [''state'' \<mapsto> PyBool True, ''mode'' \<mapsto> PyStr ''home'']
   \<and> [''state'' \<mapsto> PyBool True, ''mode'' \<mapsto> PyStr ''home''] ''state'' = Some (PyBool True)
   \<and> attr_state
      (projr (alarm_async_update
         (Inr [''deviceData'' \<mapsto> [''online'' \<mapsto> PyBool True],
               ''status'' \<mapsto> [''state'' \<mapsto> PyBool True, ''mode'' \<mapsto> PyStr ''home'']])
         \<lparr>device = Map.empty, attr_available = PyNone, attr_state = None\<rparr>))
      = Some STATE_ALARM_TRIGGERED"
  using triggered_report_of_online_alarm
    [of "[''deviceData'' \<mapsto> [''online'' \<mapsto> PyBool True],
          ''status'' \<mapsto> [''state'' \<mapsto> PyBool True, ''mode'' \<mapsto> PyStr ''home'']]"
        "[''online'' \<mapsto> PyBool True]" "PyBool True"
        "[''state'' \<mapsto> PyBool True, ''mode'' \<mapsto> PyStr ''home'']" "PyBool True"
        "\<lparr>device = Map.empty, attr_available = PyNone, attr_state = None\<rparr>"]
  by simp

text \<open>
  Without the online condition the claim fails: for a device reported offline with a
  truthy triggered flag, the update leaves the alarm state as it was, here disarmed.
\<close>

theorem triggered_report_of_offline_alarm_counterexample:
  "truthy (PyBool True)
   \<and> alarm_async_update
       (Inr [''deviceData'' \<mapsto> [''online'' \<mapsto> PyBool False],
             ''status'' \<mapsto> [''state'' \<mapsto> PyBool True, ''mode'' \<mapsto> PyStr ''home'']])
       \<lparr>device = Map.empty, attr_available = PyBool True,
         attr_state = Some STATE_ALARM_DISARMED\<rparr>
     = Inr \<lparr>device = [''deviceData'' \<mapsto> [''online'' \<mapsto> PyBool False],
             ''status'' \<mapsto> [''state'' \<mapsto> PyBool True, ''mode'' \<mapsto> PyStr ''home'']],
            attr_available = PyBool False,
            attr_state = Some STATE_ALARM_DISARMED\<rparr>
   \<and> Some STATE_ALARM_DISARMED \<noteq> Some STATE_ALARM_TRIGGERED"
  by (simp add: alarm_async_update_def bind_def Let_def)

section \<open>The irrigation controller: how setup fails\<close>

text \<open>
  Claim C6: if the webhook registration of \<open>async_setup_entry\<close> raises the
  cloud-not-connected error, setup raises \<open>ConfigEntryNotReady\<close>, the retryable signal,
  whatever the later calls would have done. The registration is reached when the config
  has its API key.
\<close>

theorem setup_cloud_not_connected_is_not_ready:
  assumes "config_api_key e = Some k"
  shows "outcome (rachio_async_setup_entry e (Inl CloudNotConnected) person_setup)
           = Raises ConfigEntryNotReady"
  using assms by (simp add: rachio_async_setup_entry_def Let_def)

theorem setup_cloud_not_connected_is_not_ready_witness:
  "config_api_key \<lparr>config_api_key = Some ''key'', config_manual_run_mins = None,
                    options_manual_run_mins = None\<rparr> = Some ''key''
   \<and> outcome (rachio_async_setup_entry
        \<lparr>config_api_key = Some ''key'', config_manual_run_mins = None,
          options_manual_run_mins = None\<rparr>
        (Inl CloudNotConnected) (Inr [''controller''])) = Raises ConfigEntryNotReady"
  using setup_cloud_not_connected_is_not_ready
    [of "\<lparr>config_api_key = Some ''key'', config_manual_run_mins = None,
          options_manual_run_mins = None\<rparr>" "''key''" "Inr [''controller'']"]
  by simp

text \<open>
  Claim C7: once the webhook is registered, setup returns \<open>False\<close> (a terminal failure,
  no retry signalled) when \<open>person.async_setup\<close> raises the authentication failure and
  when it leaves no controller, and raises \<open>ConfigEntryNotReady\<close> when it raises the
  connection timeout.
\<close>

theorem setup_terminal_and_retryable_failures:
  assumes "config_api_key e = Some k"
  shows "outcome (rachio_async_setup_entry e (Inr (webhook_id, webhook_url))
                    (Inl ConfigEntryAuthFailed)) = Returns False
       \<and> outcome (rachio_async_setup_entry e (Inr (webhook_id, webhook_url)) (Inr []))
           = Returns False
       \<and> outcome (rachio_async_setup_entry e (Inr (webhook_id, webhook_url))
                    (Inl ConnectTimeout)) = Raises ConfigEntryNotReady"
  using assms by (simp add: rachio_async_setup_entry_def Let_def)

theorem setup_terminal_and_retryable_failures_witness:
  "config_api_key \<lparr>config_api_key = Some ''key'', config_manual_run_mins = None,
                    options_manual_run_mins = None\<rparr> = Some ''key''
   \<and> outcome (rachio_async_setup_entry
        \<lparr>config_api_key = Some ''key'', config_manual_run_mins = None,
          options_manual_run_mins = None\<rparr>
        (Inr (''id'', ''url'')) (Inl ConfigEntryAuthFailed)) = Returns False
   \<and> outcome (rachio_async_setup_entry
        \<lparr>config_api_key = Some ''key'', config_manual_run_mins = None,
          options_manual_run_mins = None\<rparr>
        (Inr (''id'', ''url'')) (Inr [])) = Returns False
   \<and> outcome (rachio_async_setup_entry
        \<lparr>config_api_key = Some ''key'', config_manual_run_mins = None,
          options_manual_run_mins = None\<rparr>
        (Inr (''id'', ''url'')) (Inl ConnectTimeout)) = Raises ConfigEntryNotReady"
  using setup_terminal_and_retryable_failures
    [of "\<lparr>config_api_key = Some ''key'', config_manual_run_mins = None,
          options_manual_run_mins = None\<rparr>" "''key''" "''id''" "''url''"]
  by simp

end
